theory Spec2Isabelle
  imports Main
begin

section \<open>Strings and numbers of the host language\<close>

text \<open>
  Strings are character lists. The white space that \<^verbatim>\<open>String.prototype.trim\<close> and
  the regular expression class \<^verbatim>\<open>\s\<close> remove is the white space and line terminator
  set of the language; of it, the characters below are the ones a one-byte character
  can hold (tab, line feed, vertical tab, form feed, carriage return, space, no-break
  space).
\<close>

definition LF :: char where
  "LF = CHR 0x0A"

definition is_space :: "char \<Rightarrow> bool" where
  "is_space ch \<longleftrightarrow>
     ch = CHR 0x09 \<or> ch = CHR 0x0A \<or> ch = CHR 0x0B \<or> ch = CHR 0x0C \<or>
     ch = CHR 0x0D \<or> ch = CHR 0x20 \<or> ch = CHR 0xA0"

definition is_line_terminator :: "char \<Rightarrow> bool" where
  "is_line_terminator ch \<longleftrightarrow> ch = CHR 0x0A \<or> ch = CHR 0x0D"

definition trim :: "string \<Rightarrow> string" where
  "trim s = rev (dropWhile is_space (rev (dropWhile is_space s)))"

text \<open>
  \<^verbatim>\<open>line.replace(/\s*;.*/g, '')\<close>: scanning from the left, a run of white space
  followed by a semicolon starts a match, which extends to the next line terminator; the
  scan resumes after the match.
\<close>

function strip_comments :: "string \<Rightarrow> string" where
  "strip_comments [] = []"
| "strip_comments (ch # cs) =
     (case dropWhile is_space (ch # cs) of
        [] \<Rightarrow> ch # strip_comments cs
      | d # ds \<Rightarrow>
          if d = CHR 0x3B
          then strip_comments (dropWhile (\<lambda>x. \<not> is_line_terminator x) ds)
          else ch # strip_comments cs)"
  by pat_completeness auto

termination
proof (relation "measure length")
  show "wf (measure length)" by simp
next
  fix ch :: char and cs :: string
  show "(cs, ch # cs) \<in> measure length" by simp
next
  fix ch :: char and cs :: string and d :: char and ds :: string
  assume eq: "dropWhile is_space (ch # cs) = d # ds"
  have "length (d # ds) \<le> length (ch # cs)"
    using length_dropWhile_le [of is_space "ch # cs"] eq by simp
  moreover have "length (dropWhile (\<lambda>x. \<not> is_line_terminator x) ds) \<le> length ds"
    by (rule length_dropWhile_le)
  ultimately show "(dropWhile (\<lambda>x. \<not> is_line_terminator x) ds, ch # cs) \<in> measure length"
    by simp
next
  fix ch :: char and cs :: string and d :: char and ds :: string
  show "(cs, ch # cs) \<in> measure length" by simp
qed

text \<open>\<^verbatim>\<open>str.split(/\r?\n/)\<close>: a line feed, or a carriage return and a line feed, separates.\<close>

fun split_lines_acc :: "string \<Rightarrow> string \<Rightarrow> string list" where
  "split_lines_acc acc [] = [rev acc]"
| "split_lines_acc acc [ch] =
     (if ch = CHR 0x0A then [rev acc, []] else [rev (ch # acc)])"
| "split_lines_acc acc (ch # d # cs) =
     (if ch = CHR 0x0A then rev acc # split_lines_acc [] (d # cs)
      else if ch = CHR 0x0D \<and> d = CHR 0x0A then rev acc # split_lines_acc [] cs
      else split_lines_acc (ch # acc) (d # cs))"

definition split_lines :: "string \<Rightarrow> string list" where
  "split_lines s = split_lines_acc [] s"

text \<open>Decimal notation of an integer, as string concatenation with a number gives it.\<close>

fun digits :: "nat \<Rightarrow> string" where
  "digits n =
     (if n < 10 then [''0123456789'' ! n]
      else digits (n div 10) @ [''0123456789'' ! (n mod 10)])"

declare digits.simps [simp del]

definition show_int :: "int \<Rightarrow> string" where
  "show_int i = (if i < 0 then CHR 0x2D # digits (nat (- i)) else digits (nat i))"

text \<open>
  A number of the host language, as far as the override commands meet it: an integer, or
  \<^verbatim>\<open>NaN\<close> (what \<^verbatim>\<open>undefined + n\<close> gives). A property that is absent reads as
  \<^verbatim>\<open>undefined\<close>, here \<open>None\<close>.
\<close>

datatype jsnum = Num int | NaN

fun jsnum_add :: "jsnum option \<Rightarrow> int \<Rightarrow> jsnum" where
  "jsnum_add (Some (Num a)) b = Num (a + b)"
| "jsnum_add _ b = NaN"

fun jsnum_gt :: "jsnum \<Rightarrow> int \<Rightarrow> bool" where
  "jsnum_gt (Num a) b = (a > b)"
| "jsnum_gt NaN b = False"

fun jsnum_lt :: "jsnum \<Rightarrow> int \<Rightarrow> bool" where
  "jsnum_lt (Num a) b = (a < b)"
| "jsnum_lt NaN b = False"

fun jsnum_to_string :: "jsnum \<Rightarrow> string" where
  "jsnum_to_string (Num a) = show_int a"
| "jsnum_to_string NaN = ''NaN''"

section \<open>Data model\<close>

datatype workflow_state = WORKFLOW_STATE_IDLE | WORKFLOW_STATE_RUNNING | WORKFLOW_STATE_PAUSED

datatype streaming_protocol = SP_TYPE_SEND_RESPONSE | SP_TYPE_CHAR_COUNTING

text \<open>The reason of a hold or pause: \<^verbatim>\<open>{ data: ... }\<close> or \<^verbatim>\<open>{ err: ... }\<close>.\<close>

datatype hold_reason = ReasonData string | ReasonErr string

text \<open>
  The state object of the response parser (\<^verbatim>\<open>this.controller.state\<close>) and its cached
  copy (\<^verbatim>\<open>this.state\<close>). The controller reads the top-level properties
  \<^verbatim>\<open>machineState\<close>, \<^verbatim>\<open>ovF\<close> and \<^verbatim>\<open>ovS\<close>, and writes the properties
  \<^verbatim>\<open>ovF\<close> and \<^verbatim>\<open>ovS\<close> of the sub-object \<^verbatim>\<open>status\<close>: these are
  \<open>status_ovF\<close> and \<open>status_ovS\<close>.
\<close>

record machine_snapshot =
  machineState :: string
  wpos :: "int list"
  ovF :: "jsnum option"
  ovS :: "jsnum option"
  status_ovF :: "jsnum option"
  status_ovS :: "jsnum option"

text \<open>
  \<^verbatim>\<open>this.sender.state\<close> and \<^verbatim>\<open>this.sender.sp\<close>. An entry of \<open>sp_queue\<close> is the index
  of a line in flight and its length in bytes.
\<close>

record sender_state =
  sender_lines :: "string list"
  sender_total :: nat
  sender_sent :: nat
  sender_received :: nat
  sender_hold :: bool
  sender_holdReason :: "hold_reason option"
  sender_finishedAt :: "int option"
  sp_bufferSize :: int
  sp_dataLength :: nat
  sp_queue :: "(nat \<times> nat) list"

text \<open>The Sender is constructed with \<^verbatim>\<open>new Sender(SP_TYPE_CHAR_COUNTING, ...)\<close>.\<close>

definition sender_sp_type :: streaming_protocol where
  "sender_sp_type = SP_TYPE_CHAR_COUNTING"

record feeder_state =
  feeder_queue :: "string list"
  feeder_hold :: bool
  feeder_holdReason :: "hold_reason option"
  feeder_pending :: bool

text \<open>What \<^verbatim>\<open>this.emit\<close> sends to the sessions.\<close>

datatype emission =
    ConnectionRead string
  | ConnectionWrite string
  | WorkflowState workflow_state
  | FeederStatus feeder_state
  | SenderStatus sender_state
  | ControllerSettings nat
  | SmoothieSettings nat
  | ControllerState machine_snapshot
  | SmoothieState machine_snapshot
  | SenderLoad string string
  | SenderUnload

text \<open>
  The controller object. \<open>written\<close> is the log of \<^verbatim>\<open>this.connection.write\<close>,
  \<open>emitted\<close> the log of \<^verbatim>\<open>this.emit\<close>, \<open>triggered\<close> the log of
  \<^verbatim>\<open>this.event.trigger\<close> and \<open>tasks\<close> the log of \<^verbatim>\<open>taskRunner.run\<close>, each in
  call order. Times are milliseconds.
\<close>

record controller =
  isOpen :: bool
  written :: "string list"
  emitted :: "emission list"
  triggered :: "string list"
  tasks :: "string list"
  ready :: bool
  state :: machine_snapshot
  settings :: nat
  controller_state :: machine_snapshot
  controller_settings :: nat
  queryParserState_state :: bool
  queryParserState_reply :: bool
  queryStatusReport_mask :: bool
  replyParserState :: bool
  replyStatusReport :: bool
  actionTime_queryParserState :: int
  actionTime_queryStatusReport :: int
  senderFinishTime :: int
  feeder :: feeder_state
  sender :: sender_state
  workflow :: workflow_state

text \<open>
  What the controller takes from outside the file: the placeholder substitution
  \<^verbatim>\<open>translateWithContext\<close> (with the context it is given), the words that
  \<^verbatim>\<open>parser.parseLine\<close> finds in a line, the configuration flag
  \<^verbatim>\<open>state.controller.exception.ignoreErrors\<close>, the hooks configured for an event
  name (for each, its trigger kind and its commands), and which program text
  \<^verbatim>\<open>Sender.load\<close> accepts (the spec rejects an invalid program without saying which
  programs are invalid).
\<close>

record env =
  translateWithContext :: "string \<Rightarrow> string"
  parseLineWords :: "string \<Rightarrow> string list"
  ignoreErrors :: bool
  eventCommands :: "string \<Rightarrow> (string \<times> string) list"
  validProgram :: "string \<Rightarrow> bool"

definition WAIT :: string where
  "WAIT = ''%wait''"

text \<open>
  Modelled from the spec: \<^verbatim>\<open>constants.js\<close> and \<^verbatim>\<open>Smoothie.js\<close> are not among the
  sources. The machine state names are \<^verbatim>\<open>Idle\<close>, \<^verbatim>\<open>Hold\<close> and \<^verbatim>\<open>Alarm\<close>, the
  realtime commands are \<^verbatim>\<open>?\<close>, \<^verbatim>\<open>!\<close>, \<^verbatim>\<open>~\<close> and \<^verbatim>\<open>\x18\<close>; \<^verbatim>\<open>isIdle()\<close>
  and \<^verbatim>\<open>isAlarm()\<close> report the machine state of the parser's state object, and
  \<^verbatim>\<open>getWorkPosition(state)\<close> is the work position of the state it is given.
\<close>

definition SMOOTHIE_MACHINE_STATE_IDLE :: string where
  "SMOOTHIE_MACHINE_STATE_IDLE = ''Idle''"

definition SMOOTHIE_MACHINE_STATE_HOLD :: string where
  "SMOOTHIE_MACHINE_STATE_HOLD = ''Hold''"

definition SMOOTHIE_MACHINE_STATE_ALARM :: string where
  "SMOOTHIE_MACHINE_STATE_ALARM = ''Alarm''"

definition SMOOTHIE_REALTIME_COMMANDS :: "string list" where
  "SMOOTHIE_REALTIME_COMMANDS = [''?'', ''!'', ''~'', [CHR 0x18]]"

definition isIdle :: "controller \<Rightarrow> bool" where
  "isIdle c \<longleftrightarrow> machineState (controller_state c) = SMOOTHIE_MACHINE_STATE_IDLE"

definition isAlarm :: "controller \<Rightarrow> bool" where
  "isAlarm c \<longleftrightarrow> machineState (controller_state c) = SMOOTHIE_MACHINE_STATE_ALARM"

definition getWorkPosition :: "machine_snapshot \<Rightarrow> int list" where
  "getWorkPosition st = wpos st"

section \<open>Sessions and transport\<close>

definition isClose :: "controller \<Rightarrow> bool" where
  "isClose c \<longleftrightarrow> \<not> isOpen c"

definition emit :: "emission \<Rightarrow> controller \<Rightarrow> controller" where
  "emit e c = c\<lparr>emitted := emitted c @ [e]\<rparr>"

definition connection_write :: "string \<Rightarrow> controller \<Rightarrow> controller" where
  "connection_write d c = c\<lparr>written := written c @ [d]\<rparr>"

text \<open>\<^verbatim>\<open>write(data)\<close> and \<^verbatim>\<open>writeln(data)\<close> of the controller.\<close>

definition controller_write :: "string \<Rightarrow> controller \<Rightarrow> controller" where
  "controller_write d c =
     (if isClose c then c
      else
        (let cmd = trim d;
             c1 = c\<lparr>replyStatusReport := (cmd = ''?'') \<or> replyStatusReport c\<rparr>;
             c2 = c1\<lparr>replyParserState := (cmd = ''$G'') \<or> replyParserState c1\<rparr>
         in connection_write d (emit (ConnectionWrite d) c2)))"

definition controller_writeln :: "string \<Rightarrow> controller \<Rightarrow> controller" where
  "controller_writeln d c =
     (if d \<in> set SMOOTHIE_REALTIME_COMMANDS then controller_write d c
      else controller_write (d @ [LF]) c)"

section \<open>Sender, Feeder and Workflow\<close>

text \<open>
  Modelled from the spec: \<^verbatim>\<open>Sender.js\<close>, \<^verbatim>\<open>Feeder.js\<close> and \<^verbatim>\<open>Workflow.js\<close> are not
  among the sources; their operations follow the spec's description of the Sender, the
  Feeder and the Workflow. The listeners that the controller attaches to them are in the
  source and are translated from it.

  The Sender (\<^verbatim>\<open>Sender.js\<close>): setting hold freezes transmission and records the reason; clearing hold clears
  both (the callers run \<^verbatim>\<open>next()\<close> themselves afterwards). Rewind sets
  \<^verbatim>\<open>sent = received = 0\<close>, \<^verbatim>\<open>hold = false\<close>, empties the queue, sets
  \<^verbatim>\<open>dataLength = 0\<close> and keeps the lines. An acknowledgement dequeues the head entry,
  increments \<^verbatim>\<open>received\<close> and gives the entry's bytes back; it counts until
  \<^verbatim>\<open>received == sent\<close>.
\<close>

definition sender_hold_op :: "hold_reason option \<Rightarrow> controller \<Rightarrow> controller" where
  "sender_hold_op r c = c\<lparr>sender := (sender c)\<lparr>sender_hold := True, sender_holdReason := r\<rparr>\<rparr>"

definition sender_unhold :: "controller \<Rightarrow> controller" where
  "sender_unhold c = c\<lparr>sender := (sender c)\<lparr>sender_hold := False, sender_holdReason := None\<rparr>\<rparr>"

definition sender_rewind :: "controller \<Rightarrow> controller" where
  "sender_rewind c =
     c\<lparr>sender := (sender c)\<lparr>sender_sent := 0, sender_received := 0, sender_hold := False,
          sender_holdReason := None, sp_queue := [], sp_dataLength := 0\<rparr>\<rparr>"

definition sender_ack :: "controller \<Rightarrow> controller" where
  "sender_ack c =
     (let s = sender c in
      if sender_received s < sender_sent s then
        (case sp_queue s of
           [] \<Rightarrow> c\<lparr>sender := s\<lparr>sender_received := sender_received s + 1\<rparr>\<rparr>
         | e # q \<Rightarrow>
             c\<lparr>sender := s\<lparr>sender_received := sender_received s + 1, sp_queue := q,
                  sp_dataLength := sp_dataLength s - snd e\<rparr>\<rparr>)
      else c)"

text \<open>
  Modelled from the spec: \<^verbatim>\<open>load\<close> and \<^verbatim>\<open>unload\<close> of the Sender
  (\<^verbatim>\<open>Sender.js\<close>). Load assigns the lines of the program text and resets the
  counters; unload drops the program.
\<close>

definition sender_load :: "string \<Rightarrow> string \<Rightarrow> controller \<Rightarrow> controller" where
  "sender_load name gcode c =
     c\<lparr>sender := (sender c)\<lparr>sender_lines := split_lines gcode,
          sender_total := length (split_lines gcode), sender_sent := 0, sender_received := 0\<rparr>\<rparr>"

definition sender_unload :: "controller \<Rightarrow> controller" where
  "sender_unload c =
     c\<lparr>sender := (sender c)\<lparr>sender_lines := [], sender_total := 0, sender_sent := 0,
          sender_received := 0\<rparr>\<rparr>"

text \<open>
  Modelled from the spec: the Feeder (\<^verbatim>\<open>Feeder.js\<close>). \<^verbatim>\<open>feed\<close> appends,
  \<^verbatim>\<open>reset\<close> drops the queue and clears hold and pending; hold and unhold set and
  clear the hold and its reason.
\<close>

definition feeder_hold_op :: "hold_reason option \<Rightarrow> controller \<Rightarrow> controller" where
  "feeder_hold_op r c = c\<lparr>feeder := (feeder c)\<lparr>feeder_hold := True, feeder_holdReason := r\<rparr>\<rparr>"

definition feeder_unhold :: "controller \<Rightarrow> controller" where
  "feeder_unhold c = c\<lparr>feeder := (feeder c)\<lparr>feeder_hold := False, feeder_holdReason := None\<rparr>\<rparr>"

definition feeder_reset :: "controller \<Rightarrow> controller" where
  "feeder_reset c =
     c\<lparr>feeder := (feeder c)\<lparr>feeder_queue := [], feeder_hold := False,
          feeder_holdReason := None, feeder_pending := False\<rparr>\<rparr>"

definition feeder_feed :: "string list \<Rightarrow> controller \<Rightarrow> controller" where
  "feeder_feed data c = c\<lparr>feeder := (feeder c)\<lparr>feeder_queue := feeder_queue (feeder c) @ data\<rparr>\<rparr>"

definition feeder_isPending :: "controller \<Rightarrow> bool" where
  "feeder_isPending c \<longleftrightarrow> feeder_pending (feeder c)"

text \<open>
  The listeners that the controller attaches to the Workflow,
  \<^verbatim>\<open>this.workflow.on('start', ...)\<close>, \<^verbatim>\<open>on('stop', ...)\<close> and \<^verbatim>\<open>on('pause', ...)\<close>,
  from the source.
\<close>

definition on_workflow_start :: "controller \<Rightarrow> controller" where
  "on_workflow_start c = sender_rewind (emit (WorkflowState (workflow c)) c)"

definition on_workflow_stop :: "controller \<Rightarrow> controller" where
  "on_workflow_stop c = sender_rewind (emit (WorkflowState (workflow c)) c)"

definition on_workflow_pause :: "hold_reason option \<Rightarrow> controller \<Rightarrow> controller" where
  "on_workflow_pause r c = sender_hold_op r (emit (WorkflowState (workflow c)) c)"

text \<open>
  Modelled from the spec: the Workflow (\<^verbatim>\<open>Workflow.js\<close>). \<^verbatim>\<open>start\<close> leads from idle
  to running, \<^verbatim>\<open>pause\<close> from running to paused, \<^verbatim>\<open>stop\<close> from any state to idle;
  a transition that is not in the table, or that leaves the state as it is, does
  nothing. Each transition that happens emits its event, which runs the listener.
\<close>

definition workflow_start :: "controller \<Rightarrow> controller" where
  "workflow_start c =
     (if workflow c = WORKFLOW_STATE_IDLE
      then on_workflow_start (c\<lparr>workflow := WORKFLOW_STATE_RUNNING\<rparr>) else c)"

definition workflow_stop :: "controller \<Rightarrow> controller" where
  "workflow_stop c =
     (if workflow c \<noteq> WORKFLOW_STATE_IDLE
      then on_workflow_stop (c\<lparr>workflow := WORKFLOW_STATE_IDLE\<rparr>) else c)"

definition workflow_pause :: "hold_reason option \<Rightarrow> controller \<Rightarrow> controller" where
  "workflow_pause r c =
     (if workflow c = WORKFLOW_STATE_RUNNING
      then on_workflow_pause r (c\<lparr>workflow := WORKFLOW_STATE_PAUSED\<rparr>) else c)"

section \<open>Line preprocessing and the data listeners\<close>

text \<open>
  The \<^verbatim>\<open>dataFilter\<close> of the Feeder and of the Sender, from the source. The context
  object only feeds \<^verbatim>\<open>translateWithContext\<close> and \<^verbatim>\<open>evaluateExpression\<close>; it is part
  of the environment here, so an expression line (\<^verbatim>\<open>%...\<close>) only yields the empty line.
  \<^verbatim>\<open>_.intersection(words, ['M0', 'M1'])[0]\<close> is the first word that is one of the two.
\<close>

definition programMode :: "string list \<Rightarrow> string option" where
  "programMode ws = find (\<lambda>w. w = ''M0'' \<or> w = ''M1'') ws"

definition feeder_dataFilter :: "env \<Rightarrow> string \<Rightarrow> controller \<Rightarrow> string \<times> controller" where
  "feeder_dataFilter en line0 c =
     (let line = trim (strip_comments line0) in
      if line \<noteq> [] \<and> hd line = CHR 0x25 then
        (if line = WAIT then (''G4 P0.5 (%wait)'', c) else ([], c))
      else
        (let line1 = translateWithContext en line;
             ws = parseLineWords en line1;
             c1 = (if programMode ws = Some ''M0'' then feeder_hold_op (Some (ReasonData ''M0'')) c
                   else if programMode ws = Some ''M1'' then feeder_hold_op (Some (ReasonData ''M1'')) c
                   else c);
             c2 = (if ''M6'' \<in> set ws then feeder_hold_op (Some (ReasonData ''M6'')) c1 else c1)
         in (line1, c2)))"

definition sender_dataFilter :: "env \<Rightarrow> string \<Rightarrow> controller \<Rightarrow> string \<times> controller" where
  "sender_dataFilter en line0 c =
     (let line = trim (strip_comments line0) in
      if line \<noteq> [] \<and> hd line = CHR 0x25 then
        (if line = WAIT then (''G4 P0.5 (%wait)'', sender_hold_op (Some (ReasonData WAIT)) c)
         else ([], c))
      else
        (let line1 = translateWithContext en line;
             ws = parseLineWords en line1;
             c1 = (if programMode ws = Some ''M0'' then workflow_pause (Some (ReasonData ''M0'')) c
                   else if programMode ws = Some ''M1'' then workflow_pause (Some (ReasonData ''M1'')) c
                   else c);
             c2 = (if ''M6'' \<in> set ws then workflow_pause (Some (ReasonData ''M6'')) c1 else c1)
         in (line1, c2)))"

text \<open>\<^verbatim>\<open>this.feeder.on('data', ...)\<close> and \<^verbatim>\<open>this.sender.on('data', ...)\<close>.\<close>

definition feeder_on_data :: "string \<Rightarrow> controller \<Rightarrow> controller" where
  "feeder_on_data line0 c =
     (if isClose c then c
      else if isAlarm c then feeder_reset c
      else
        (let line = trim line0 in
         if length line = 0 then c
         else connection_write (line @ [LF]) (emit (ConnectionWrite (line @ [LF])) c)))"

definition sender_on_data :: "string \<Rightarrow> controller \<Rightarrow> controller" where
  "sender_on_data line0 c =
     (if isClose c then c
      else if workflow c = WORKFLOW_STATE_IDLE then c
      else
        (let line = trim line0 in
         if length line = 0 then c
         else connection_write (line @ [LF]) c))"

text \<open>
  \<^verbatim>\<open>this.sender.on('start', ...)\<close> and \<^verbatim>\<open>this.sender.on('end', ...)\<close>. In the
  spec the Sender emits \<^verbatim>\<open>start\<close> from its \<^verbatim>\<open>start()\<close>, which the controller does not
  call, and \<^verbatim>\<open>end\<close> from \<^verbatim>\<open>next()\<close>.
\<close>

definition sender_on_start :: "int \<Rightarrow> controller \<Rightarrow> controller" where
  "sender_on_start startTime c = c\<lparr>senderFinishTime := 0\<rparr>"

definition sender_on_end :: "int \<Rightarrow> controller \<Rightarrow> controller" where
  "sender_on_end finishTime c = c\<lparr>senderFinishTime := finishTime\<rparr>"

section \<open>The send loops\<close>

text \<open>
  Modelled from the spec: \<^verbatim>\<open>next()\<close> of the Sender. While the Sender does not hold and
  lines are left, the line at \<^verbatim>\<open>lines[sent]\<close> goes through the preprocessor. An empty
  result advances \<^verbatim>\<open>sent\<close> silently. A line that fits
  (\<^verbatim>\<open>dataLength + byteLen(line) + 1 <= bufferSize\<close>, or the queue is empty) is enqueued,
  counted and given to the data listener, which writes it; a line that does not fit
  ends the loop. After the loop, \<^verbatim>\<open>received == total\<close> with an empty queue emits
  \<^verbatim>\<open>end\<close> with the current time.
\<close>

definition line_at :: "string list \<Rightarrow> nat \<Rightarrow> string" where
  "line_at ls i = (if i < length ls then ls ! i else [])"

definition sender_fits :: "string \<Rightarrow> controller \<Rightarrow> bool" where
  "sender_fits line c \<longleftrightarrow>
     int (sp_dataLength (sender c)) + int (length line) + 1 \<le> sp_bufferSize (sender c)
     \<or> sp_queue (sender c) = []"

definition sender_advance :: "controller \<Rightarrow> controller" where
  "sender_advance c = c\<lparr>sender := (sender c)\<lparr>sender_sent := sender_sent (sender c) + 1\<rparr>\<rparr>"

definition sender_enqueue :: "string \<Rightarrow> controller \<Rightarrow> controller" where
  "sender_enqueue line c =
     c\<lparr>sender := (sender c)\<lparr>
          sp_queue := sp_queue (sender c) @ [(sender_sent (sender c), length line)],
          sp_dataLength := sp_dataLength (sender c) + length line,
          sender_sent := sender_sent (sender c) + 1\<rparr>\<rparr>"

lemma sender_dataFilter_sent:
  "sender_sent (sender (snd (sender_dataFilter en l c))) = sender_sent (sender c)"
  by (simp add: sender_dataFilter_def Let_def workflow_pause_def on_workflow_pause_def
      sender_hold_op_def emit_def)

lemma sender_dataFilter_total:
  "sender_total (sender (snd (sender_dataFilter en l c))) = sender_total (sender c)"
  by (simp add: sender_dataFilter_def Let_def workflow_pause_def on_workflow_pause_def
      sender_hold_op_def emit_def)

lemma sender_on_data_sender: "sender (sender_on_data l c) = sender c"
  by (simp add: sender_on_data_def Let_def connection_write_def)

function sender_process :: "env \<Rightarrow> controller \<Rightarrow> controller" where
  "sender_process en c =
     (if sender_hold (sender c) \<or> \<not> sender_sent (sender c) < sender_total (sender c) then c
      else
        (let r = sender_dataFilter en (line_at (sender_lines (sender c)) (sender_sent (sender c))) c
         in if fst r = [] then sender_process en (sender_advance (snd r))
            else if sender_fits (fst r) (snd r)
            then sender_process en (sender_on_data (fst r) (sender_enqueue (fst r) (snd r)))
            else snd r))"
  by pat_completeness auto

termination
proof (relation "measure (\<lambda>(en, c). sender_total (sender c) - sender_sent (sender c))")
  show "wf (measure (\<lambda>(en, c). sender_total (sender c) - sender_sent (sender c)))"
    by simp
next
  fix en c r
  assume "\<not> (sender_hold (sender c) \<or> \<not> sender_sent (sender c) < sender_total (sender c))"
    and "r = sender_dataFilter en (line_at (sender_lines (sender c)) (sender_sent (sender c))) c"
  then show "((en, sender_advance (snd r)), en, c)
      \<in> measure (\<lambda>(en, c). sender_total (sender c) - sender_sent (sender c))"
    by (auto simp add: sender_advance_def sender_dataFilter_sent sender_dataFilter_total)
next
  fix en c r
  assume "\<not> (sender_hold (sender c) \<or> \<not> sender_sent (sender c) < sender_total (sender c))"
    and "r = sender_dataFilter en (line_at (sender_lines (sender c)) (sender_sent (sender c))) c"
  then show "((en, sender_on_data (fst r) (sender_enqueue (fst r) (snd r))), en, c)
      \<in> measure (\<lambda>(en, c). sender_total (sender c) - sender_sent (sender c))"
    by (auto simp add: sender_on_data_sender sender_enqueue_def sender_dataFilter_sent
        sender_dataFilter_total)
qed

declare sender_process.simps [simp del]

definition sender_next :: "env \<Rightarrow> int \<Rightarrow> controller \<Rightarrow> controller" where
  "sender_next en now c =
     (let c1 = sender_process en c; s = sender c1 in
      if sender_received s = sender_total s \<and> sp_queue s = []
      then sender_on_end now (c1\<lparr>sender := s\<lparr>sender_finishedAt := Some now\<rparr>\<rparr>)
      else c1)"

text \<open>
  Modelled from the spec: \<^verbatim>\<open>next()\<close> of the Feeder. A line is pending while it is in
  flight; an \<^verbatim>\<open>ok\<close> or \<^verbatim>\<open>error\<close> that reaches the Feeder clears pending and
  reattempts, and the listeners tell the Feeder so by calling \<^verbatim>\<open>next()\<close>. So
  \<^verbatim>\<open>next()\<close> clears pending and, unless the Feeder holds, transmits the head of the
  queue: the head is dequeued, goes through the preprocessor and to the data listener;
  once written, the line is pending. (The \<^verbatim>\<open>gcode\<close> command calls \<^verbatim>\<open>next()\<close> only
  when no line is pending.)
\<close>

definition feeder_send :: "env \<Rightarrow> string \<Rightarrow> controller \<Rightarrow> controller" where
  "feeder_send en l c =
     (let r = feeder_dataFilter en l c;
          c1 = feeder_on_data (fst r) (snd r)
      in if length (written (snd r)) < length (written c1)
         then c1\<lparr>feeder := (feeder c1)\<lparr>feeder_pending := True\<rparr>\<rparr>
         else c1)"

definition feeder_next :: "env \<Rightarrow> controller \<Rightarrow> controller" where
  "feeder_next en c =
     (let c0 = c\<lparr>feeder := (feeder c)\<lparr>feeder_pending := False\<rparr>\<rparr> in
      if feeder_hold (feeder c0) then c0
      else
        (case feeder_queue (feeder c0) of
           [] \<Rightarrow> c0
         | l # q \<Rightarrow> feeder_send en l (c0\<lparr>feeder := (feeder c0)\<lparr>feeder_queue := q\<rparr>\<rparr>)))"

text \<open>\<^verbatim>\<open>this.workflow.on('resume', ...)\<close>, from the source.\<close>

definition on_workflow_resume :: "env \<Rightarrow> int \<Rightarrow> controller \<Rightarrow> controller" where
  "on_workflow_resume en now c =
     sender_next en now (sender_unhold (feeder_reset (emit (WorkflowState (workflow c)) c)))"

text \<open>
  Modelled from the spec: \<^verbatim>\<open>resume\<close> of the Workflow (\<^verbatim>\<open>Workflow.js\<close>) leads from
  paused to running and runs the listener.
\<close>

definition workflow_resume :: "env \<Rightarrow> int \<Rightarrow> controller \<Rightarrow> controller" where
  "workflow_resume en now c =
     (if workflow c = WORKFLOW_STATE_PAUSED
      then on_workflow_resume en now (c\<lparr>workflow := WORKFLOW_STATE_RUNNING\<rparr>) else c)"

section \<open>Response dispatch\<close>

text \<open>
  The listeners of the response parser, from the source. A status report carries its raw
  line and, when the report has one, the number \<^verbatim>\<open>buf.rx\<close>
  (\<^verbatim>\<open>Number(_.get(res, 'buf.rx', 0)) || 0\<close> is 0 without it).
\<close>

definition on_status :: "string \<Rightarrow> int option \<Rightarrow> controller \<Rightarrow> controller" where
  "on_status raw buf_rx c =
     (let c1 = c\<lparr>queryStatusReport_mask := False\<rparr>;
          c2 = (if replyStatusReport c1
                then emit (ConnectionRead raw) (c1\<lparr>replyStatusReport := False\<rparr>) else c1);
          rx = (case buf_rx of None \<Rightarrow> 0 | Some r \<Rightarrow> r)
      in if rx > 0 then
           (if workflow c2 \<noteq> WORKFLOW_STATE_IDLE then c2
            else if sender_sp_type \<noteq> SP_TYPE_CHAR_COUNTING then c2
            else if sp_dataLength (sender c2) \<noteq> 0 then c2
            else
              (let bufferSize = rx - 8 in
               if bufferSize > sp_bufferSize (sender c2)
               then c2\<lparr>sender := (sender c2)\<lparr>sp_bufferSize := bufferSize\<rparr>\<rparr>
               else c2))
         else c2)"

definition on_ok :: "env \<Rightarrow> int \<Rightarrow> string \<Rightarrow> controller \<Rightarrow> controller" where
  "on_ok en now raw c =
     (if queryParserState_reply c then
        (let c1 = (if replyParserState c
                   then emit (ConnectionRead raw) (c\<lparr>replyParserState := False\<rparr>) else c)
         in c1\<lparr>queryParserState_reply := False\<rparr>)
      else
        (let hold = sender_hold (sender c);
             sent = sender_sent (sender c);
             received = sender_received (sender c)
         in if workflow c = WORKFLOW_STATE_RUNNING then
              (let c1 = (if hold \<and> received + 1 \<ge> sent then sender_unhold c else c)
               in sender_next en now (sender_ack c1))
            else if workflow c = WORKFLOW_STATE_PAUSED \<and> received < sent then
              sender_next en now (sender_ack c)
            else feeder_next en (emit (ConnectionRead raw) c)))"

text \<open>
  The annotated echo of the error listener, \<^verbatim>\<open>`> ${line.trim()} (line=${received + 1})`\<close>
  with \<^verbatim>\<open>line = lines[received] || ''\<close>.
\<close>

definition error_echo :: "controller \<Rightarrow> string" where
  "error_echo c =
     ''> '' @ trim (line_at (sender_lines (sender c)) (sender_received (sender c)))
       @ '' (line='' @ show_int (int (sender_received (sender c)) + 1) @ '')''"

definition on_error :: "env \<Rightarrow> int \<Rightarrow> string \<Rightarrow> controller \<Rightarrow> controller" where
  "on_error en now raw c =
     (if workflow c = WORKFLOW_STATE_RUNNING then
        (let pauseError = \<not> ignoreErrors en;
             c1 = emit (ConnectionRead (error_echo c)) c;
             c2 = emit (ConnectionRead raw) c1;
             c3 = (if pauseError then workflow_pause (Some (ReasonErr raw)) c2 else c2)
         in sender_next en now (sender_ack c3))
      else feeder_next en (emit (ConnectionRead raw) c))"

definition on_alarm :: "string \<Rightarrow> controller \<Rightarrow> controller" where
  "on_alarm raw c = emit (ConnectionRead raw) c"

definition on_parserstate :: "string \<Rightarrow> controller \<Rightarrow> controller" where
  "on_parserstate raw c =
     (let c1 = c\<lparr>queryParserState_state := False, queryParserState_reply := True\<rparr>
      in if replyParserState c1 then emit (ConnectionRead raw) c1 else c1)"

definition on_parameters :: "string \<Rightarrow> controller \<Rightarrow> controller" where
  "on_parameters raw c = emit (ConnectionRead raw) c"

definition on_version :: "string \<Rightarrow> controller \<Rightarrow> controller" where
  "on_version raw c = emit (ConnectionRead raw) c"

definition on_others :: "string \<Rightarrow> controller \<Rightarrow> controller" where
  "on_others raw c = emit (ConnectionRead raw) c"

section \<open>Commands\<close>

text \<open>\<^verbatim>\<open>ensureArray(commands).join('\n')\<close>.\<close>

fun join_lines :: "string list \<Rightarrow> string" where
  "join_lines [] = []"
| "join_lines [x] = x"
| "join_lines (x # y # xs) = x @ [LF] @ join_lines (y # xs)"

definition command_gcode :: "env \<Rightarrow> string list \<Rightarrow> controller \<Rightarrow> controller" where
  "command_gcode en commands c =
     (let data = filter (\<lambda>line. length (trim line) > 0) (split_lines (join_lines commands));
          c1 = feeder_feed data c
      in if \<not> feeder_isPending c1 then feeder_next en c1 else c1)"

text \<open>
  Modelled from the spec: \<^verbatim>\<open>EventTrigger.js\<close> is not among the sources.
  \<^verbatim>\<open>this.event.trigger(name)\<close> runs the controller's callback (from the source) on
  each hook configured for the event name.
\<close>

definition event_callback :: "env \<Rightarrow> string \<times> string \<Rightarrow> controller \<Rightarrow> controller" where
  "event_callback en h c =
     (if fst h = ''system'' then c\<lparr>tasks := tasks c @ [snd h]\<rparr>
      else command_gcode en [snd h] c)"

definition event_trigger :: "env \<Rightarrow> string \<Rightarrow> controller \<Rightarrow> controller" where
  "event_trigger en name c =
     fold (event_callback en) (eventCommands en name) (c\<lparr>triggered := triggered c @ [name]\<rparr>)"

definition command_sender_load :: "env \<Rightarrow> string \<Rightarrow> string \<Rightarrow> controller \<Rightarrow> controller" where
  "command_sender_load en name content c =
     (let dwell = ''%wait ; Wait for the planner queue to empty'';
          gcode = content @ [LF] @ dwell
      in if \<not> validProgram en gcode then c
         else workflow_stop (event_trigger en ''sender:load''
                (emit (SenderLoad name content) (sender_load name gcode c))))"

definition command_sender_unload :: "env \<Rightarrow> controller \<Rightarrow> controller" where
  "command_sender_unload en c =
     event_trigger en ''sender:unload'' (emit SenderUnload (sender_unload (workflow_stop c)))"

definition command_sender_start :: "env \<Rightarrow> int \<Rightarrow> controller \<Rightarrow> controller" where
  "command_sender_start en now c =
     sender_next en now (feeder_reset (workflow_start (event_trigger en ''sender:start'' c)))"

definition command_sender_stop :: "env \<Rightarrow> controller \<Rightarrow> controller" where
  "command_sender_stop en c =
     (let c1 = workflow_stop (event_trigger en ''sender:stop'' c)
      in if machineState (state c1) = SMOOTHIE_MACHINE_STATE_HOLD
         then controller_write ''~'' c1 else c1)"

definition command_sender_pause :: "env \<Rightarrow> controller \<Rightarrow> controller" where
  "command_sender_pause en c =
     controller_write ''!'' (workflow_pause None (event_trigger en ''sender:pause'' c))"

definition command_sender_resume :: "env \<Rightarrow> int \<Rightarrow> controller \<Rightarrow> controller" where
  "command_sender_resume en now c =
     workflow_resume en now (controller_write ''~'' (event_trigger en ''sender:resume'' c))"

definition command_feeder_start :: "env \<Rightarrow> controller \<Rightarrow> controller" where
  "command_feeder_start en c =
     (if workflow c = WORKFLOW_STATE_RUNNING then c
      else feeder_next en (feeder_unhold (controller_write ''~'' c)))"

definition command_feeder_stop :: "controller \<Rightarrow> controller" where
  "command_feeder_stop c = feeder_reset c"

definition command_feedhold :: "env \<Rightarrow> controller \<Rightarrow> controller" where
  "command_feedhold en c = controller_write ''!'' (event_trigger en ''feedhold'' c)"

definition command_cyclestart :: "env \<Rightarrow> controller \<Rightarrow> controller" where
  "command_cyclestart en c = controller_write ''~'' (event_trigger en ''cyclestart'' c)"

definition command_homing :: "env \<Rightarrow> controller \<Rightarrow> controller" where
  "command_homing en c = controller_writeln ''$H'' (event_trigger en ''homing'' c)"

definition command_sleep :: "env \<Rightarrow> controller \<Rightarrow> controller" where
  "command_sleep en c = event_trigger en ''sleep'' c"

definition command_unlock :: "controller \<Rightarrow> controller" where
  "command_unlock c = controller_writeln ''$X'' c"

definition command_reset :: "controller \<Rightarrow> controller" where
  "command_reset c = controller_write [CHR 0x18] (feeder_reset (workflow_stop c))"

text \<open>
  The override commands: the current value is read from the property \<^verbatim>\<open>ovF\<close>
  (\<^verbatim>\<open>ovS\<close>) of the parser's state object, the new one is written to the property
  \<^verbatim>\<open>ovF\<close> (\<^verbatim>\<open>ovS\<close>) of its sub-object \<^verbatim>\<open>status\<close>. \<open>override_value\<close> is the
  chain of tests that both commands apply to the current value and the argument.
\<close>

definition override_value :: "jsnum option \<Rightarrow> int \<Rightarrow> jsnum" where
  "override_value cur v =
     (if v = 0 then Num 100
      else if jsnum_gt (jsnum_add cur v) 200 then Num 200
      else if jsnum_lt (jsnum_add cur v) 10 then Num 10
      else jsnum_add cur v)"

definition command_override_feed :: "env \<Rightarrow> int \<Rightarrow> controller \<Rightarrow> controller" where
  "command_override_feed en v c =
     (let feedOverride = override_value (ovF (controller_state c)) v;
          c1 = command_gcode en [''M220S'' @ jsnum_to_string feedOverride] c
      in c1\<lparr>controller_state := (controller_state c1)\<lparr>status_ovF := Some feedOverride\<rparr>\<rparr>)"

definition command_override_spindle :: "env \<Rightarrow> int \<Rightarrow> controller \<Rightarrow> controller" where
  "command_override_spindle en v c =
     (let spindleOverride = override_value (ovS (controller_state c)) v;
          c1 = command_gcode en [''M221S'' @ jsnum_to_string spindleOverride] c
      in c1\<lparr>controller_state := (controller_state c1)\<lparr>status_ovS := Some spindleOverride\<rparr>\<rparr>)"

definition command_override_rapid :: "controller \<Rightarrow> controller" where
  "command_override_rapid c = c"

section \<open>The controller loop\<close>

text \<open>
  \<^verbatim>\<open>queryStatusReport\<close> and the body of \<^verbatim>\<open>queryParserState\<close>, run at the time
  \<open>now\<close>.
\<close>

definition queryStatusReport :: "int \<Rightarrow> controller \<Rightarrow> controller" where
  "queryStatusReport now c =
     (if \<not> ready c then c
      else
        (let lastQueryTime = actionTime_queryStatusReport c;
             c1 = (if lastQueryTime > 0 \<and> \<bar>now - lastQueryTime\<bar> \<ge> 5000
                   then c\<lparr>queryStatusReport_mask := False\<rparr> else c)
         in if queryStatusReport_mask c1 then c1
            else if isOpen c1
            then connection_write ''?''
                   (c1\<lparr>queryStatusReport_mask := True, actionTime_queryStatusReport := now\<rparr>)
            else c1))"

definition queryParserState :: "int \<Rightarrow> controller \<Rightarrow> controller" where
  "queryParserState now c =
     (if \<not> ready c then c
      else
        (let lastQueryTime = actionTime_queryParserState c;
             c1 = (if workflow c = WORKFLOW_STATE_IDLE \<and> isIdle c
                      \<and> lastQueryTime > 0 \<and> \<bar>now - lastQueryTime\<bar> \<ge> 10000
                   then c\<lparr>queryParserState_state := False, queryParserState_reply := False\<rparr>
                   else c)
         in if queryParserState_state c1 \<or> queryParserState_reply c1 then c1
            else if isOpen c1
            then connection_write (''$G'' @ [LF])
                   (c1\<lparr>queryParserState_state := True, queryParserState_reply := False,
                        actionTime_queryParserState := now\<rparr>)
            else c1))"


text \<open>
  The function of \<^verbatim>\<open>setInterval(..., 250)\<close> (\<^verbatim>\<open>this.queryTimer\<close>), in three parts:
  \<open>tick_report\<close> emits the status of the Feeder and the Sender and takes over the
  settings and the state of the parser; \<open>finish_check\<close> is the check whether the
  machine has stopped after completion; \<open>tick\<close> is the whole function.
  \<^verbatim>\<open>queryParserState\<close> is wrapped in
  \<^verbatim>\<open>_.throttle(..., 500)\<close>, which is not part of the sources: \<open>leading\<close> tells whether
  the throttle runs the body within this call; a run on the trailing edge is an event of
  its own. What \<^verbatim>\<open>peek()\<close> of the Feeder and of the Sender answer is given by
  \<open>feederPeek\<close> and \<open>senderPeek\<close>. Object identity of the state and settings objects is
  equality of their values.
\<close>

definition tick_report :: "bool \<Rightarrow> bool \<Rightarrow> controller \<Rightarrow> controller" where
  "tick_report feederPeek senderPeek c =
     (let c1 = (if feederPeek then emit (FeederStatus (feeder c)) c else c);
          c2 = (if senderPeek then emit (SenderStatus (sender c1)) c1 else c1);
          c3 = (if settings c2 \<noteq> controller_settings c2
                then emit (SmoothieSettings (controller_settings c2))
                       (emit (ControllerSettings (controller_settings c2))
                          (c2\<lparr>settings := controller_settings c2\<rparr>))
                else c2)
      in if state c3 \<noteq> controller_state c3
         then emit (SmoothieState (controller_state c3))
                (emit (ControllerState (controller_state c3))
                   (c3\<lparr>state := controller_state c3\<rparr>))
         else c3)"

definition finish_check :: "env \<Rightarrow> int \<Rightarrow> bool \<Rightarrow> controller \<Rightarrow> controller" where
  "finish_check en now zeroOffset c =
     (if senderFinishTime c > 0 then
        (let machineIdle = zeroOffset \<and> isIdle c;
             timespan = \<bar>now - senderFinishTime c\<bar>;
             toleranceTime = 500
         in if \<not> machineIdle then c\<lparr>senderFinishTime := now\<rparr>
            else if timespan > toleranceTime
            then command_sender_stop en (c\<lparr>senderFinishTime := 0\<rparr>)
            else c)
      else c)"

definition tick :: "env \<Rightarrow> int \<Rightarrow> bool \<Rightarrow> bool \<Rightarrow> bool \<Rightarrow> controller \<Rightarrow> controller" where
  "tick en now leading feederPeek senderPeek c =
     (if isClose c then c
      else
        (let zeroOffset = (getWorkPosition (state c) = getWorkPosition (controller_state c));
             c1 = tick_report feederPeek senderPeek c
         in if \<not> ready c1 then c1
            else
              (let c2 = queryStatusReport now c1;
                   c3 = (if leading then queryParserState now c2 else c2)
               in finish_check en now zeroOffset c3)))"

text \<open>
  The controller of an open and ready tick as it reaches the end-of-program check: after
  the reports and the two queries.
\<close>

definition before_finish_check :: "int \<Rightarrow> bool \<Rightarrow> bool \<Rightarrow> bool \<Rightarrow> controller \<Rightarrow> controller" where
  "before_finish_check now leading feederPeek senderPeek c =
     (let c2 = queryStatusReport now (tick_report feederPeek senderPeek c)
      in if leading then queryParserState now c2 else c2)"

section \<open>Events\<close>

text \<open>
  What can happen to a controller between two quiescent states: a response of the
  machine, a tick, a trailing run of the throttled parser state query, a command of a
  session, or the response parser replacing its state and settings objects.
\<close>

datatype event =
    Status string "int option"
  | Ok int string
  | Error int string
  | Alarm string
  | Parserstate string
  | Parameters string
  | Version string
  | Others string
  | Tick int bool bool bool
  | ThrottledQuery int
  | ParserUpdate machine_snapshot nat
  | SenderLoad_cmd string string
  | SenderUnload_cmd
  | SenderStart int
  | SenderStop
  | SenderPause
  | SenderResume int
  | FeederStart
  | FeederStop
  | Feedhold
  | Cyclestart
  | Homing
  | Sleep
  | Unlock
  | Reset
  | OverrideFeed int
  | OverrideSpindle int
  | OverrideRapid
  | Gcode "string list"

fun handle :: "env \<Rightarrow> event \<Rightarrow> controller \<Rightarrow> controller" where
  "handle en (Status raw buf_rx) c = on_status raw buf_rx c"
| "handle en (Ok now raw) c = on_ok en now raw c"
| "handle en (Error now raw) c = on_error en now raw c"
| "handle en (Alarm raw) c = on_alarm raw c"
| "handle en (Parserstate raw) c = on_parserstate raw c"
| "handle en (Parameters raw) c = on_parameters raw c"
| "handle en (Version raw) c = on_version raw c"
| "handle en (Others raw) c = on_others raw c"
| "handle en (Tick now leading feederPeek senderPeek) c = tick en now leading feederPeek senderPeek c"
| "handle en (ThrottledQuery now) c = queryParserState now c"
| "handle en (ParserUpdate st se) c = c\<lparr>controller_state := st, controller_settings := se\<rparr>"
| "handle en (SenderLoad_cmd name content) c = command_sender_load en name content c"
| "handle en SenderUnload_cmd c = command_sender_unload en c"
| "handle en (SenderStart now) c = command_sender_start en now c"
| "handle en SenderStop c = command_sender_stop en c"
| "handle en SenderPause c = command_sender_pause en c"
| "handle en (SenderResume now) c = command_sender_resume en now c"
| "handle en FeederStart c = command_feeder_start en c"
| "handle en FeederStop c = command_feeder_stop c"
| "handle en Feedhold c = command_feedhold en c"
| "handle en Cyclestart c = command_cyclestart en c"
| "handle en Homing c = command_homing en c"
| "handle en Sleep c = command_sleep en c"
| "handle en Unlock c = command_unlock c"
| "handle en Reset c = command_reset c"
| "handle en (OverrideFeed v) c = command_override_feed en v c"
| "handle en (OverrideSpindle v) c = command_override_spindle en v c"
| "handle en OverrideRapid c = command_override_rapid c"
| "handle en (Gcode commands) c = command_gcode en commands c"

fun run :: "env \<Rightarrow> event list \<Rightarrow> controller \<Rightarrow> controller" where
  "run en [] c = c"
| "run en (e # es) c = run en es (handle en e c)"

section \<open>A controller to compute with\<close>

text \<open>
  The controller as its constructor leaves it (buffer size \<^verbatim>\<open>128 - 8\<close>, workflow idle,
  masks and times cleared), with a parser state that reports an idle machine at the
  origin and overrides of 100; and an environment without placeholders and hooks, whose
  line parser splits a line at white space.
\<close>

fun split_words_acc :: "string \<Rightarrow> string \<Rightarrow> string list" where
  "split_words_acc acc [] = (if acc = [] then [] else [rev acc])"
| "split_words_acc acc (ch # cs) =
     (if is_space ch
      then (if acc = [] then split_words_acc [] cs else rev acc # split_words_acc [] cs)
      else split_words_acc (ch # acc) cs)"

definition example_env :: env where
  "example_env = \<lparr>translateWithContext = (\<lambda>l. l), parseLineWords = split_words_acc [],
     ignoreErrors = False, eventCommands = (\<lambda>name. []), validProgram = (\<lambda>gcode. True)\<rparr>"

definition init_snapshot :: machine_snapshot where
  "init_snapshot = \<lparr>machineState = ''Idle'', wpos = [0, 0, 0, 0, 0, 0], ovF = Some (Num 100),
     ovS = Some (Num 100), status_ovF = None, status_ovS = None\<rparr>"

definition init_sender :: sender_state where
  "init_sender = \<lparr>sender_lines = [], sender_total = 0, sender_sent = 0, sender_received = 0,
     sender_hold = False, sender_holdReason = None, sender_finishedAt = None,
     sp_bufferSize = 128 - 8, sp_dataLength = 0, sp_queue = []\<rparr>"

definition init_feeder :: feeder_state where
  "init_feeder = \<lparr>feeder_queue = [], feeder_hold = False, feeder_holdReason = None,
     feeder_pending = False\<rparr>"

definition init_controller :: controller where
  "init_controller = \<lparr>isOpen = False, written = [], emitted = [], triggered = [], tasks = [],
     ready = False, state = init_snapshot, settings = 0, controller_state = init_snapshot,
     controller_settings = 0, queryParserState_state = False, queryParserState_reply = False,
     queryStatusReport_mask = False, replyParserState = False, replyStatusReport = False,
     actionTime_queryParserState = 0, actionTime_queryStatusReport = 0, senderFinishTime = 0,
     feeder = init_feeder, sender = init_sender, workflow = WORKFLOW_STATE_IDLE\<rparr>"

text \<open>The same controller with the connection open and the ready flag set.\<close>

definition open_controller :: controller where
  "open_controller = init_controller\<lparr>isOpen := True, ready := True\<rparr>"

text \<open>A program of three lines and the appended dwell, two lines sent, one acknowledged.\<close>

definition streaming_sender :: sender_state where
  "streaming_sender = init_sender\<lparr>
     sender_lines := [''G1 X1'', ''G1 X2'', ''G1 X3'', ''%wait ; Wait for the planner queue to empty''],
     sender_total := 4, sender_sent := 2, sender_received := 1,
     sp_queue := [(1, 5)], sp_dataLength := 5\<rparr>"

definition streaming_controller :: controller where
  "streaming_controller =
     open_controller\<lparr>sender := streaming_sender, workflow := WORKFLOW_STATE_RUNNING\<rparr>"

text \<open>A machine in alarm with two lines waiting in the Feeder and one in flight.\<close>

definition alarm_controller :: controller where
  "alarm_controller =
     open_controller\<lparr>controller_state := init_snapshot\<lparr>machineState := ''Alarm''\<rparr>,
       feeder := init_feeder\<lparr>feeder_queue := [''G91'', ''G0 X1''], feeder_pending := True\<rparr>\<rparr>"

text \<open>
  A program that has been sent and acknowledged in full at time 1000, the workflow still
  running; and the same with the machine still moving.
\<close>

definition finished_controller :: controller where
  "finished_controller =
     open_controller\<lparr>senderFinishTime := 1000, workflow := WORKFLOW_STATE_RUNNING,
       sender := streaming_sender\<lparr>sender_sent := 4, sender_received := 4, sp_queue := [],
         sp_dataLength := 0\<rparr>\<rparr>"

definition moving_controller :: controller where
  "moving_controller =
     finished_controller\<lparr>controller_state := init_snapshot\<lparr>machineState := ''Run''\<rparr>\<rparr>"

section \<open>What the operations leave alone\<close>

text \<open>
  Only the status listener assigns the buffer size; the operations of the Feeder, the
  writes and the queries do not touch the Sender at all.
\<close>

lemmas sender_small_defs = sender_hold_op_def sender_unhold_def sender_rewind_def
  sender_advance_def sender_enqueue_def emit_def connection_write_def
  workflow_pause_def workflow_stop_def workflow_start_def on_workflow_pause_def
  on_workflow_stop_def on_workflow_start_def sender_on_end_def feeder_reset_def
  feeder_hold_op_def feeder_unhold_def feeder_feed_def

lemma sender_ack_bufferSize: "sp_bufferSize (sender (sender_ack c)) = sp_bufferSize (sender c)"
  by (simp add: sender_ack_def Let_def split: list.split)

lemma sender_dataFilter_bufferSize:
  "sp_bufferSize (sender (snd (sender_dataFilter en l c))) = sp_bufferSize (sender c)"
  by (simp add: sender_dataFilter_def Let_def sender_small_defs)

lemma sender_advance_bufferSize:
  "sp_bufferSize (sender (sender_advance c)) = sp_bufferSize (sender c)"
  by (simp add: sender_advance_def)

lemma sender_enqueue_bufferSize:
  "sp_bufferSize (sender (sender_enqueue l c)) = sp_bufferSize (sender c)"
  by (simp add: sender_enqueue_def)

lemma sender_process_bufferSize:
  "sp_bufferSize (sender (sender_process en c)) = sp_bufferSize (sender c)"
proof (induction en c rule: sender_process.induct)
  case (1 en c)
  show ?case
    by (subst sender_process.simps)
      (simp add: Let_def "1.IH" sender_on_data_sender sender_dataFilter_bufferSize
        sender_advance_bufferSize sender_enqueue_bufferSize)
qed

lemma sender_next_bufferSize:
  "sp_bufferSize (sender (sender_next en now c)) = sp_bufferSize (sender c)"
  by (simp add: sender_next_def Let_def sender_process_bufferSize sender_on_end_def)

lemma feeder_dataFilter_sender: "sender (snd (feeder_dataFilter en l c)) = sender c"
  by (simp add: feeder_dataFilter_def Let_def sender_small_defs)

lemma feeder_on_data_sender: "sender (feeder_on_data l c) = sender c"
  by (simp add: feeder_on_data_def Let_def sender_small_defs)

lemma feeder_send_sender: "sender (feeder_send en l c) = sender c"
  by (simp add: feeder_send_def Let_def feeder_on_data_sender feeder_dataFilter_sender)

lemma feeder_next_sender: "sender (feeder_next en c) = sender c"
  by (simp add: feeder_next_def Let_def feeder_send_sender split: list.split)

lemma command_gcode_sender: "sender (command_gcode en cmds c) = sender c"
  by (simp add: command_gcode_def Let_def feeder_next_sender feeder_feed_def)

lemma event_callback_sender: "sender (event_callback en h c) = sender c"
  by (simp add: event_callback_def command_gcode_sender)

lemma fold_event_callback_sender: "sender (fold (event_callback en) hs c) = sender c"
  by (induction hs arbitrary: c) (simp_all add: event_callback_sender)

lemma event_trigger_sender: "sender (event_trigger en name c) = sender c"
  by (simp add: event_trigger_def fold_event_callback_sender)

lemma controller_write_sender: "sender (controller_write d c) = sender c"
  by (simp add: controller_write_def Let_def sender_small_defs)

lemma controller_writeln_sender: "sender (controller_writeln d c) = sender c"
  by (simp add: controller_writeln_def controller_write_sender)

lemma workflow_stop_bufferSize: "sp_bufferSize (sender (workflow_stop c)) = sp_bufferSize (sender c)"
  by (simp add: sender_small_defs)

lemma workflow_start_bufferSize: "sp_bufferSize (sender (workflow_start c)) = sp_bufferSize (sender c)"
  by (simp add: sender_small_defs)

lemma workflow_pause_bufferSize: "sp_bufferSize (sender (workflow_pause r c)) = sp_bufferSize (sender c)"
  by (simp add: sender_small_defs)

lemma workflow_resume_bufferSize:
  "sp_bufferSize (sender (workflow_resume en now c)) = sp_bufferSize (sender c)"
  by (simp add: workflow_resume_def on_workflow_resume_def sender_next_bufferSize sender_small_defs)

lemma command_sender_stop_bufferSize:
  "sp_bufferSize (sender (command_sender_stop en c)) = sp_bufferSize (sender c)"
  by (simp add: command_sender_stop_def Let_def controller_write_sender workflow_stop_bufferSize
      event_trigger_sender)

lemma queryStatusReport_sender: "sender (queryStatusReport now c) = sender c"
  by (simp add: queryStatusReport_def Let_def connection_write_def)

lemma queryParserState_sender: "sender (queryParserState now c) = sender c"
  by (simp add: queryParserState_def Let_def connection_write_def)

lemma tick_report_sender: "sender (tick_report fp sp c) = sender c"
  by (simp add: tick_report_def Let_def emit_def)

lemma finish_check_bufferSize:
  "sp_bufferSize (sender (finish_check en now z c)) = sp_bufferSize (sender c)"
  by (simp add: finish_check_def Let_def command_sender_stop_bufferSize)

lemma tick_bufferSize:
  "sp_bufferSize (sender (tick en now l fp sp c)) = sp_bufferSize (sender c)"
  by (simp add: tick_def Let_def finish_check_bufferSize queryStatusReport_sender
      queryParserState_sender tick_report_sender)

lemma on_ok_bufferSize: "sp_bufferSize (sender (on_ok en now raw c)) = sp_bufferSize (sender c)"
  by (simp add: on_ok_def Let_def sender_next_bufferSize sender_ack_bufferSize feeder_next_sender
      sender_small_defs)

lemma on_error_bufferSize: "sp_bufferSize (sender (on_error en now raw c)) = sp_bufferSize (sender c)"
  by (simp add: on_error_def Let_def sender_next_bufferSize sender_ack_bufferSize feeder_next_sender
      workflow_pause_bufferSize) (simp add: emit_def)

lemma on_status_bufferSize:
  "sp_bufferSize (sender (on_status raw b c))
     = (case b of
          None \<Rightarrow> sp_bufferSize (sender c)
        | Some R \<Rightarrow>
            if R > 0 \<and> workflow c = WORKFLOW_STATE_IDLE \<and> sp_dataLength (sender c) = 0
            then max (sp_bufferSize (sender c)) (R - 8) else sp_bufferSize (sender c))"
  by (auto simp add: on_status_def Let_def emit_def sender_sp_type_def split: option.split)

lemma handle_bufferSize_other:
  "(\<forall>raw b. ev \<noteq> Status raw b) \<Longrightarrow>
     sp_bufferSize (sender (handle en ev c)) = sp_bufferSize (sender c)"
  by (cases ev)
    (simp_all add: on_ok_bufferSize on_error_bufferSize tick_bufferSize queryParserState_sender
      command_sender_stop_bufferSize workflow_resume_bufferSize controller_write_sender
      controller_writeln_sender event_trigger_sender command_gcode_sender feeder_next_sender
      sender_next_bufferSize workflow_start_bufferSize workflow_pause_bufferSize
      workflow_stop_bufferSize
      on_alarm_def on_parserstate_def on_parameters_def on_version_def on_others_def
      command_sender_load_def command_sender_unload_def sender_load_def sender_unload_def
      command_sender_start_def command_sender_pause_def command_sender_resume_def
      command_feeder_start_def command_feeder_stop_def command_feedhold_def command_cyclestart_def
      command_homing_def command_sleep_def command_unlock_def command_reset_def
      command_override_feed_def command_override_spindle_def command_override_rapid_def
      Let_def emit_def feeder_reset_def feeder_unhold_def)

lemma bufferSize_handle_mono:
  "sp_bufferSize (sender c) \<le> sp_bufferSize (sender (handle en ev c))"
proof (cases "\<exists>raw b. ev = Status raw b")
  case True
  then show ?thesis
    by (auto simp add: on_status_bufferSize split: option.split)
next
  case False
  then show ?thesis
    by (simp add: handle_bufferSize_other)
qed

lemma bufferSize_run_mono:
  "sp_bufferSize (sender c) \<le> sp_bufferSize (sender (run en evs c))"
proof (induction evs arbitrary: c)
  case Nil
  show ?case by simp
next
  case (Cons ev evs)
  have "sp_bufferSize (sender c) \<le> sp_bufferSize (sender (handle en ev c))"
    by (rule bufferSize_handle_mono)
  also have "\<dots> \<le> sp_bufferSize (sender (run en evs (handle en ev c)))"
    by (rule Cons.IH)
  finally show ?case by simp
qed

section \<open>Receive buffer self-tuning\<close>

text \<open>
  C5. Over the events of the controller (responses of the machine, ticks, throttled
  queries, parser updates and the commands load, unload, start, stop, pause, resume,
  feeder start and stop, feed hold, cycle start, homing, sleep, unlock, reset, the
  overrides and gcode), the buffer size of the Sender changes only by a status event
  that carries \<^verbatim>\<open>buf.rx = R\<close> with \<open>R > 0\<close> while the workflow is idle and
  \<^verbatim>\<open>dataLength\<close> is 0; such an event sets it to the maximum of its value and
  \<open>R - 8\<close>. So the buffer size never decreases along any sequence of events.
\<close>

theorem bufferSize_self_tuning:
  "(sp_bufferSize (sender (handle en ev c)) \<noteq> sp_bufferSize (sender c) \<longrightarrow>
      (\<exists>raw R. ev = Status raw (Some R) \<and> R > 0 \<and> workflow c = WORKFLOW_STATE_IDLE
         \<and> sp_dataLength (sender c) = 0
         \<and> sp_bufferSize (sender (handle en ev c)) = max (sp_bufferSize (sender c)) (R - 8)))
   \<and> (R > 0 \<and> workflow c = WORKFLOW_STATE_IDLE \<and> sp_dataLength (sender c) = 0 \<longrightarrow>
        sp_bufferSize (sender (handle en (Status raw (Some R)) c))
          = max (sp_bufferSize (sender c)) (R - 8))
   \<and> sp_bufferSize (sender c) \<le> sp_bufferSize (sender (run en evs c))"
proof (intro conjI impI)
  assume changed: "sp_bufferSize (sender (handle en ev c)) \<noteq> sp_bufferSize (sender c)"
  then obtain raw b where ev: "ev = Status raw b"
    using handle_bufferSize_other [of ev en c] by blast
  with changed show "\<exists>raw R. ev = Status raw (Some R) \<and> R > 0 \<and> workflow c = WORKFLOW_STATE_IDLE
      \<and> sp_dataLength (sender c) = 0
      \<and> sp_bufferSize (sender (handle en ev c)) = max (sp_bufferSize (sender c)) (R - 8)"
    by (cases b) (auto simp add: on_status_bufferSize split: if_splits)
next
  assume "R > 0 \<and> workflow c = WORKFLOW_STATE_IDLE \<and> sp_dataLength (sender c) = 0"
  then show "sp_bufferSize (sender (handle en (Status raw (Some R)) c))
      = max (sp_bufferSize (sender c)) (R - 8)"
    by (simp add: on_status_bufferSize)
next
  show "sp_bufferSize (sender c) \<le> sp_bufferSize (sender (run en evs c))"
    by (rule bufferSize_run_mono)
qed

theorem bufferSize_self_tuning_witness:
  "(200::int) > 0 \<and> workflow open_controller = WORKFLOW_STATE_IDLE
   \<and> sp_dataLength (sender open_controller) = 0
   \<and> sp_bufferSize (sender open_controller) = 120
   \<and> sp_bufferSize (sender (handle example_env (Status ''<Idle>'' (Some 200)) open_controller)) = 192
   \<and> sp_bufferSize (sender (run example_env
        [Status ''<Idle>'' (Some 200), Status ''<Idle>'' (Some 100)] open_controller)) = 192
   \<and> sp_bufferSize (sender open_controller)
        \<le> sp_bufferSize (sender (run example_env
              [Status ''<Idle>'' (Some 200), Status ''<Idle>'' (Some 100)] open_controller))"
  using bufferSize_self_tuning [of example_env "Status ''<Idle>'' (Some 200)" open_controller 200
      "''<Idle>''" "[Status ''<Idle>'' (Some 200), Status ''<Idle>'' (Some 100)]"]
  by (simp add: on_status_bufferSize open_controller_def init_controller_def init_sender_def
      on_status_def Let_def sender_sp_type_def)

section \<open>Acknowledgements\<close>





























section \<open>The parser state reply mask\<close>

text \<open>
  C6. An \<^verbatim>\<open>ok\<close> that arrives while the mask \<^verbatim>\<open>queryParserState.reply\<close> is set is
  taken as the acknowledgement of a \<^verbatim>\<open>$G\<close> query: the raw line is surfaced once if
  \<^verbatim>\<open>replyParserState\<close> is set (and that flag is cleared) and not at all otherwise, the
  mask is cleared, nothing is written, and the Sender and the Feeder are left exactly as
  they were.
\<close>

theorem ok_consumed_by_parser_state_reply:
  "queryParserState_reply c \<Longrightarrow>
     emitted (on_ok en now raw c)
       = (if replyParserState c then emitted c @ [ConnectionRead raw] else emitted c)
     \<and> \<not> replyParserState (on_ok en now raw c)
     \<and> \<not> queryParserState_reply (on_ok en now raw c)
     \<and> written (on_ok en now raw c) = written c
     \<and> sender (on_ok en now raw c) = sender c
     \<and> feeder (on_ok en now raw c) = feeder c"
  by (simp add: on_ok_def emit_def)

theorem ok_consumed_by_parser_state_reply_witness:
  "queryParserState_reply
     (streaming_controller\<lparr>queryParserState_reply := True, replyParserState := True\<rparr>)
   \<and> emitted (on_ok example_env 0 ''ok''
        (streaming_controller\<lparr>queryParserState_reply := True, replyParserState := True\<rparr>))
       = [ConnectionRead ''ok'']
   \<and> \<not> queryParserState_reply (on_ok example_env 0 ''ok''
        (streaming_controller\<lparr>queryParserState_reply := True, replyParserState := True\<rparr>))
   \<and> sender (on_ok example_env 0 ''ok''
        (streaming_controller\<lparr>queryParserState_reply := True, replyParserState := True\<rparr>))
       = streaming_sender"
  using ok_consumed_by_parser_state_reply
    [of "streaming_controller\<lparr>queryParserState_reply := True, replyParserState := True\<rparr>"
        example_env 0 "''ok''"]
  by (simp add: streaming_controller_def open_controller_def init_controller_def)

text \<open>
  C10. Every \<^verbatim>\<open>parserstate\<close> event sets the mask \<^verbatim>\<open>queryParserState.reply\<close>, whatever
  the masks and the workflow state were, and touches neither the Sender, the Feeder nor
  the workflow. The \<^verbatim>\<open>ok\<close> that follows it is therefore consumed by the mask: it
  clears the mask and leaves the Sender and the Feeder as they were before both events,
  with nothing written.
\<close>

theorem parserstate_masks_next_ok:
  "queryParserState_reply (on_parserstate raw c)
   \<and> \<not> queryParserState_state (on_parserstate raw c)
   \<and> sender (on_parserstate raw c) = sender c
   \<and> feeder (on_parserstate raw c) = feeder c
   \<and> workflow (on_parserstate raw c) = workflow c
   \<and> sender (on_ok en now raw' (on_parserstate raw c)) = sender c
   \<and> feeder (on_ok en now raw' (on_parserstate raw c)) = feeder c
   \<and> written (on_ok en now raw' (on_parserstate raw c)) = written c
   \<and> \<not> queryParserState_reply (on_ok en now raw' (on_parserstate raw c))"
  by (simp add: on_ok_def on_parserstate_def emit_def Let_def)

theorem parserstate_masks_next_ok_witness:
  "workflow streaming_controller = WORKFLOW_STATE_RUNNING
   \<and> \<not> queryParserState_state streaming_controller
   \<and> queryParserState_reply (on_parserstate ''[G0 G54]'' streaming_controller)
   \<and> sender (on_ok example_env 0 ''ok'' (on_parserstate ''[G0 G54]'' streaming_controller))
       = streaming_sender
   \<and> feeder (on_ok example_env 0 ''ok'' (on_parserstate ''[G0 G54]'' streaming_controller))
       = init_feeder"
  using parserstate_masks_next_ok [of "''[G0 G54]''" streaming_controller example_env 0 "''ok''"]
  by (simp add: streaming_controller_def open_controller_def init_controller_def)

section \<open>The data listener of the Sender\<close>

text \<open>
  C9. For a line that the Sender emits as data, the listener writes to the transport
  exactly when the connection is open, the workflow is running or paused, and the
  trimmed line is not empty; what it writes is the trimmed line and a newline. With
  the workflow idle, the connection closed or a line that trims to nothing, nothing is
  written.
\<close>

theorem sender_data_write:
  "written (sender_on_data line c)
     = (if isOpen c \<and> (workflow c = WORKFLOW_STATE_RUNNING \<or> workflow c = WORKFLOW_STATE_PAUSED)
           \<and> trim line \<noteq> []
        then written c @ [trim line @ [LF]] else written c)"
  by (cases "workflow c") (simp_all add: sender_on_data_def isClose_def connection_write_def Let_def)

theorem sender_data_write_witness:
  "written (sender_on_data ''G1 X3 '' streaming_controller) = [''G1 X3'' @ [LF]]
   \<and> written (sender_on_data ''G1 X3'' open_controller) = []
   \<and> written (sender_on_data ''G1 X3'' (streaming_controller\<lparr>isOpen := False\<rparr>)) = []
   \<and> written (sender_on_data ''  '' streaming_controller) = []"
  using sender_data_write [of "''G1 X3 ''" streaming_controller]
    sender_data_write [of "''G1 X3''" open_controller]
    sender_data_write [of "''G1 X3''" "streaming_controller\<lparr>isOpen := False\<rparr>"]
    sender_data_write [of "''  ''" streaming_controller]
  by (simp add: streaming_controller_def open_controller_def init_controller_def trim_def
      is_space_def)

section \<open>Alarm\<close>

text \<open>While the parser reports the alarm state, what the Feeder emits is not written.\<close>

lemma feeder_dataFilter_frame:
  "written (snd (feeder_dataFilter en l c)) = written c
   \<and> isOpen (snd (feeder_dataFilter en l c)) = isOpen c
   \<and> controller_state (snd (feeder_dataFilter en l c)) = controller_state c"
  by (simp add: feeder_dataFilter_def Let_def feeder_hold_op_def)

lemma feeder_on_data_alarm:
  "isAlarm c \<Longrightarrow> written (feeder_on_data l c) = written c"
  by (simp add: feeder_on_data_def feeder_reset_def)

lemma feeder_on_data_alarm_reset:
  "isAlarm c \<Longrightarrow> isOpen c \<Longrightarrow> feeder_on_data l c = feeder_reset c"
  by (simp add: feeder_on_data_def isClose_def)

lemma feeder_send_alarm:
  assumes "isAlarm c"
  shows "written (feeder_send en l c) = written c"
proof -
  let ?r = "feeder_dataFilter en l c"
  have "isAlarm (snd ?r)"
    using assms by (simp add: isAlarm_def feeder_dataFilter_frame)
  then have "written (feeder_on_data (fst ?r) (snd ?r)) = written (snd ?r)"
    by (rule feeder_on_data_alarm)
  then have "written (feeder_on_data (fst ?r) (snd ?r)) = written c"
    by (simp add: feeder_dataFilter_frame)
  then show ?thesis
    by (simp add: feeder_send_def Let_def feeder_dataFilter_frame)
qed

lemma feeder_next_alarm:
  assumes "isAlarm c"
  shows "written (feeder_next en c) = written c"
proof (cases "feeder_queue (feeder c)")
  case Nil
  then show ?thesis by (simp add: feeder_next_def Let_def)
next
  case (Cons l q)
  have "isAlarm (c\<lparr>feeder := (feeder c)\<lparr>feeder_pending := False, feeder_queue := q\<rparr>\<rparr>)"
    using assms by (simp add: isAlarm_def)
  from feeder_send_alarm [OF this, of en l] Cons show ?thesis
    by (simp add: feeder_next_def Let_def)
qed

lemma command_gcode_alarm:
  "isAlarm c \<Longrightarrow> written (command_gcode en cmds c) = written c"
  using feeder_next_alarm [of "feeder_feed (filter (\<lambda>line. length (trim line) > 0)
      (split_lines (join_lines cmds))) c" en]
  by (simp add: command_gcode_def Let_def feeder_feed_def isAlarm_def)

text \<open>
  C7 (as amended). An \<^verbatim>\<open>alarm\<close> event surfaces the raw line to the sessions and
  changes nothing else: the Feeder keeps its queue, hold and pending. While the
  controller reports the alarm state, no line of the Feeder is written to the transport
  (by the data listener, by \<^verbatim>\<open>next()\<close> or by the \<^verbatim>\<open>gcode\<close> command); the Feeder
  is reset (queue dropped, hold and pending cleared) when it emits a line in that state
  with the connection open.
\<close>

theorem alarm_surfaced_feeder_reset_on_write:
  "on_alarm raw c = c\<lparr>emitted := emitted c @ [ConnectionRead raw]\<rparr>
   \<and> feeder (on_alarm raw c) = feeder c
   \<and> (isAlarm c \<longrightarrow>
        written (feeder_on_data line c) = written c
        \<and> written (feeder_next en c) = written c
        \<and> written (command_gcode en cmds c) = written c)
   \<and> (isAlarm c \<and> isOpen c \<longrightarrow>
        feeder (feeder_on_data line c)
          = (feeder c)\<lparr>feeder_queue := [], feeder_hold := False, feeder_holdReason := None,
               feeder_pending := False\<rparr>)"
  by (simp add: on_alarm_def emit_def feeder_on_data_alarm feeder_next_alarm command_gcode_alarm
      feeder_on_data_alarm_reset feeder_reset_def)

theorem alarm_surfaced_feeder_reset_on_write_witness:
  "isAlarm alarm_controller \<and> isOpen alarm_controller
   \<and> emitted (on_alarm ''ALARM: Hard limit'' alarm_controller) = [ConnectionRead ''ALARM: Hard limit'']
   \<and> written (feeder_on_data ''G91'' alarm_controller) = []
   \<and> written (command_gcode example_env [''G0 X2''] alarm_controller) = []
   \<and> feeder (feeder_on_data ''G91'' alarm_controller) = init_feeder"
  using alarm_surfaced_feeder_reset_on_write
    [of "''ALARM: Hard limit''" alarm_controller "''G91''" example_env "[''G0 X2'']"]
  by (simp add: alarm_controller_def open_controller_def init_controller_def
      init_feeder_def init_snapshot_def isAlarm_def SMOOTHIE_MACHINE_STATE_ALARM_def)

text \<open>
  C7 as stated fails: the \<^verbatim>\<open>alarm\<close> listener does not reset the Feeder. With the
  machine in alarm, two lines queued and one pending, the event leaves the queue and
  the pending flag as they are.
\<close>

theorem alarm_event_keeps_feeder:
  "isAlarm alarm_controller
   \<and> feeder_queue (feeder (on_alarm ''ALARM: Hard limit'' alarm_controller)) = [''G91'', ''G0 X1'']
   \<and> feeder_pending (feeder (on_alarm ''ALARM: Hard limit'' alarm_controller))"
  by (simp add: on_alarm_def emit_def alarm_controller_def open_controller_def init_controller_def
      init_feeder_def init_snapshot_def isAlarm_def SMOOTHIE_MACHINE_STATE_ALARM_def)

section \<open>End-of-program detection\<close>

text \<open>
  The Feeder, the hooks, the reports and the queries leave the finish time, the trigger
  log and the workflow alone; \<^verbatim>\<open>sender:stop\<close> logs its trigger and leaves the
  workflow idle.
\<close>

lemma feeder_on_data_frame:
  "senderFinishTime (feeder_on_data l c) = senderFinishTime c
   \<and> triggered (feeder_on_data l c) = triggered c
   \<and> workflow (feeder_on_data l c) = workflow c
   \<and> state (feeder_on_data l c) = state c"
  by (simp add: feeder_on_data_def Let_def feeder_reset_def emit_def connection_write_def)

lemma feeder_dataFilter_frame2:
  "senderFinishTime (snd (feeder_dataFilter en l c)) = senderFinishTime c
   \<and> triggered (snd (feeder_dataFilter en l c)) = triggered c
   \<and> workflow (snd (feeder_dataFilter en l c)) = workflow c
   \<and> state (snd (feeder_dataFilter en l c)) = state c"
  by (simp add: feeder_dataFilter_def Let_def feeder_hold_op_def)

lemma feeder_send_frame:
  "senderFinishTime (feeder_send en l c) = senderFinishTime c
   \<and> triggered (feeder_send en l c) = triggered c
   \<and> workflow (feeder_send en l c) = workflow c
   \<and> state (feeder_send en l c) = state c"
  by (simp add: feeder_send_def Let_def feeder_on_data_frame feeder_dataFilter_frame2)

lemma feeder_next_frame:
  "senderFinishTime (feeder_next en c) = senderFinishTime c
   \<and> triggered (feeder_next en c) = triggered c
   \<and> workflow (feeder_next en c) = workflow c
   \<and> state (feeder_next en c) = state c"
  by (simp add: feeder_next_def Let_def feeder_send_frame split: list.split)

lemma command_gcode_frame:
  "senderFinishTime (command_gcode en cmds c) = senderFinishTime c
   \<and> triggered (command_gcode en cmds c) = triggered c
   \<and> workflow (command_gcode en cmds c) = workflow c
   \<and> state (command_gcode en cmds c) = state c"
  by (simp add: command_gcode_def Let_def feeder_next_frame feeder_feed_def)

lemma event_callback_frame:
  "senderFinishTime (event_callback en h c) = senderFinishTime c
   \<and> triggered (event_callback en h c) = triggered c
   \<and> workflow (event_callback en h c) = workflow c
   \<and> state (event_callback en h c) = state c"
  by (simp add: event_callback_def command_gcode_frame)

lemma fold_event_callback_frame:
  "senderFinishTime (fold (event_callback en) hs c) = senderFinishTime c
   \<and> triggered (fold (event_callback en) hs c) = triggered c
   \<and> workflow (fold (event_callback en) hs c) = workflow c
   \<and> state (fold (event_callback en) hs c) = state c"
  by (induction hs arbitrary: c) (simp_all add: event_callback_frame)

lemma event_trigger_frame:
  "senderFinishTime (event_trigger en name c) = senderFinishTime c
   \<and> triggered (event_trigger en name c) = triggered c @ [name]
   \<and> workflow (event_trigger en name c) = workflow c
   \<and> state (event_trigger en name c) = state c"
  by (simp add: event_trigger_def fold_event_callback_frame)

lemma workflow_stop_frame:
  "senderFinishTime (workflow_stop c) = senderFinishTime c
   \<and> triggered (workflow_stop c) = triggered c
   \<and> workflow (workflow_stop c) = WORKFLOW_STATE_IDLE
   \<and> state (workflow_stop c) = state c"
  by (simp add: workflow_stop_def on_workflow_stop_def sender_rewind_def emit_def)

lemma controller_write_frame:
  "senderFinishTime (controller_write d c) = senderFinishTime c
   \<and> triggered (controller_write d c) = triggered c
   \<and> workflow (controller_write d c) = workflow c"
  by (simp add: controller_write_def Let_def emit_def connection_write_def)

lemma command_sender_stop_frame:
  "senderFinishTime (command_sender_stop en c) = senderFinishTime c
   \<and> triggered (command_sender_stop en c) = triggered c @ [''sender:stop'']
   \<and> workflow (command_sender_stop en c) = WORKFLOW_STATE_IDLE"
  by (simp add: command_sender_stop_def Let_def controller_write_frame workflow_stop_frame
      event_trigger_frame)

lemma tick_report_frame:
  "senderFinishTime (tick_report fp sp c) = senderFinishTime c
   \<and> triggered (tick_report fp sp c) = triggered c
   \<and> workflow (tick_report fp sp c) = workflow c
   \<and> controller_state (tick_report fp sp c) = controller_state c
   \<and> ready (tick_report fp sp c) = ready c"
  by (simp add: tick_report_def Let_def emit_def)

lemma queryStatusReport_frame:
  "senderFinishTime (queryStatusReport now c) = senderFinishTime c
   \<and> triggered (queryStatusReport now c) = triggered c
   \<and> workflow (queryStatusReport now c) = workflow c
   \<and> controller_state (queryStatusReport now c) = controller_state c"
  by (simp add: queryStatusReport_def Let_def connection_write_def)

lemma queryParserState_frame:
  "senderFinishTime (queryParserState now c) = senderFinishTime c
   \<and> triggered (queryParserState now c) = triggered c
   \<and> workflow (queryParserState now c) = workflow c
   \<and> controller_state (queryParserState now c) = controller_state c"
  by (simp add: queryParserState_def Let_def connection_write_def)

lemma before_finish_check_frame:
  "senderFinishTime (before_finish_check now l fp sp c) = senderFinishTime c
   \<and> triggered (before_finish_check now l fp sp c) = triggered c
   \<and> workflow (before_finish_check now l fp sp c) = workflow c
   \<and> controller_state (before_finish_check now l fp sp c) = controller_state c"
  by (simp add: before_finish_check_def Let_def queryParserState_frame queryStatusReport_frame
      tick_report_frame)

lemma tick_open_ready:
  "isOpen c \<Longrightarrow> ready c \<Longrightarrow>
     tick en now l fp sp c
       = finish_check en now (getWorkPosition (state c) = getWorkPosition (controller_state c))
           (before_finish_check now l fp sp c)"
  by (simp add: tick_def isClose_def Let_def tick_report_frame before_finish_check_def)

text \<open>
  C8 (as amended). On a tick with the connection open, the ready flag set and
  \<^verbatim>\<open>senderFinishTime > 0\<close>: if the machine is not idle or its work position differs
  from the cached one, \<^verbatim>\<open>senderFinishTime\<close> becomes the current time and nothing is
  stopped; if the machine is idle at the cached position and the time span to
  \<^verbatim>\<open>senderFinishTime\<close> exceeds 500 ms, \<^verbatim>\<open>senderFinishTime\<close> is cleared and the
  command \<^verbatim>\<open>sender:stop\<close> runs, which leaves the workflow idle; within 500 ms
  nothing changes.
\<close>

theorem tick_finish_detection:
  "isOpen c \<and> ready c \<and> senderFinishTime c > 0 \<longrightarrow>
     (\<not> (getWorkPosition (state c) = getWorkPosition (controller_state c) \<and> isIdle c) \<longrightarrow>
        senderFinishTime (tick en now l fp sp c) = now
        \<and> triggered (tick en now l fp sp c) = triggered c
        \<and> workflow (tick en now l fp sp c) = workflow c)
     \<and> (getWorkPosition (state c) = getWorkPosition (controller_state c) \<and> isIdle c
          \<and> \<bar>now - senderFinishTime c\<bar> > 500 \<longrightarrow>
        senderFinishTime (tick en now l fp sp c) = 0
        \<and> tick en now l fp sp c
            = command_sender_stop en ((before_finish_check now l fp sp c)\<lparr>senderFinishTime := 0\<rparr>)
        \<and> triggered (tick en now l fp sp c) = triggered c @ [''sender:stop'']
        \<and> workflow (tick en now l fp sp c) = WORKFLOW_STATE_IDLE)
     \<and> (getWorkPosition (state c) = getWorkPosition (controller_state c) \<and> isIdle c
          \<and> \<bar>now - senderFinishTime c\<bar> \<le> 500 \<longrightarrow>
        senderFinishTime (tick en now l fp sp c) = senderFinishTime c
        \<and> triggered (tick en now l fp sp c) = triggered c
        \<and> workflow (tick en now l fp sp c) = workflow c)"
proof (intro impI)
  assume a: "isOpen c \<and> ready c \<and> senderFinishTime c > 0"
  let ?b = "before_finish_check now l fp sp c"
  have t: "tick en now l fp sp c
      = finish_check en now (getWorkPosition (state c) = getWorkPosition (controller_state c)) ?b"
    using a by (simp add: tick_open_ready)
  have idle: "isIdle ?b = isIdle c"
    by (simp add: isIdle_def before_finish_check_frame)
  show "(\<not> (getWorkPosition (state c) = getWorkPosition (controller_state c) \<and> isIdle c) \<longrightarrow>
        senderFinishTime (tick en now l fp sp c) = now
        \<and> triggered (tick en now l fp sp c) = triggered c
        \<and> workflow (tick en now l fp sp c) = workflow c)
     \<and> (getWorkPosition (state c) = getWorkPosition (controller_state c) \<and> isIdle c
          \<and> \<bar>now - senderFinishTime c\<bar> > 500 \<longrightarrow>
        senderFinishTime (tick en now l fp sp c) = 0
        \<and> tick en now l fp sp c
            = command_sender_stop en ((before_finish_check now l fp sp c)\<lparr>senderFinishTime := 0\<rparr>)
        \<and> triggered (tick en now l fp sp c) = triggered c @ [''sender:stop'']
        \<and> workflow (tick en now l fp sp c) = WORKFLOW_STATE_IDLE)
     \<and> (getWorkPosition (state c) = getWorkPosition (controller_state c) \<and> isIdle c
          \<and> \<bar>now - senderFinishTime c\<bar> \<le> 500 \<longrightarrow>
        senderFinishTime (tick en now l fp sp c) = senderFinishTime c
        \<and> triggered (tick en now l fp sp c) = triggered c
        \<and> workflow (tick en now l fp sp c) = workflow c)"
    unfolding t using a
    by (simp add: finish_check_def Let_def idle before_finish_check_frame command_sender_stop_frame)
qed

theorem tick_finish_detection_witness:
  "isOpen finished_controller \<and> ready finished_controller \<and> senderFinishTime finished_controller > 0
   \<and> isIdle finished_controller
   \<and> senderFinishTime (tick example_env 1250 True False False finished_controller) = 1000
   \<and> senderFinishTime (tick example_env 1750 True False False finished_controller) = 0
   \<and> workflow (tick example_env 1750 True False False finished_controller) = WORKFLOW_STATE_IDLE
   \<and> triggered (tick example_env 1750 True False False finished_controller) = [''sender:stop'']
   \<and> \<not> isIdle moving_controller
   \<and> senderFinishTime (tick example_env 1750 True False False moving_controller) = 1750"
proof -
  have pre: "isOpen finished_controller \<and> ready finished_controller
      \<and> senderFinishTime finished_controller > 0"
    by (simp add: finished_controller_def open_controller_def init_controller_def)
  have idle: "getWorkPosition (state finished_controller)
        = getWorkPosition (controller_state finished_controller) \<and> isIdle finished_controller"
    by (simp add: finished_controller_def open_controller_def init_controller_def init_snapshot_def
        isIdle_def getWorkPosition_def SMOOTHIE_MACHINE_STATE_IDLE_def)
  have sft: "senderFinishTime finished_controller = 1000" and tr: "triggered finished_controller = []"
    by (simp_all add: finished_controller_def open_controller_def init_controller_def)
  have pre': "isOpen moving_controller \<and> ready moving_controller
      \<and> senderFinishTime moving_controller > 0"
    by (simp add: moving_controller_def finished_controller_def open_controller_def
        init_controller_def)
  have moving: "\<not> isIdle moving_controller"
    by (simp add: moving_controller_def init_snapshot_def isIdle_def
        SMOOTHIE_MACHINE_STATE_IDLE_def)
  have early: "senderFinishTime (tick example_env 1250 True False False finished_controller) = 1000"
    using tick_finish_detection [of finished_controller example_env 1250 True False False]
      pre idle sft by simp
  have late: "senderFinishTime (tick example_env 1750 True False False finished_controller) = 0
      \<and> workflow (tick example_env 1750 True False False finished_controller) = WORKFLOW_STATE_IDLE
      \<and> triggered (tick example_env 1750 True False False finished_controller) = [''sender:stop'']"
    using tick_finish_detection [of finished_controller example_env 1750 True False False]
      pre idle sft tr by (simp add: command_sender_stop_frame before_finish_check_frame)
  have slide: "senderFinishTime (tick example_env 1750 True False False moving_controller) = 1750"
    using tick_finish_detection [of moving_controller example_env 1750 True False False]
      pre' moving by simp
  from pre idle early late moving slide show ?thesis by simp
qed

text \<open>
  C8 as stated fails on a tick that does not reach the check: with the ready flag
  cleared (as the connection's error listener leaves it), \<^verbatim>\<open>senderFinishTime > 0\<close> and
  the machine moving, the tick at 1750 leaves \<^verbatim>\<open>senderFinishTime\<close> at 1000.
\<close>

theorem tick_not_ready_keeps_finish_time:
  "senderFinishTime (moving_controller\<lparr>ready := False\<rparr>) > 0
   \<and> \<not> isIdle (moving_controller\<lparr>ready := False\<rparr>)
   \<and> senderFinishTime (tick example_env 1750 True False False
        (moving_controller\<lparr>ready := False\<rparr>)) = 1000"
  by (simp add: tick_def tick_report_def Let_def emit_def isClose_def moving_controller_def
      finished_controller_def open_controller_def init_controller_def init_snapshot_def isIdle_def
      SMOOTHIE_MACHINE_STATE_IDLE_def)

section \<open>The parser state query\<close>






section \<open>Overrides\<close>

text \<open>
  C3. The claim wants the new override value to be the current one plus the delta
  (clamped), and the new value to become the cached \<^verbatim>\<open>ovF\<close>. The command reads
  the current value from \<^verbatim>\<open>state.ovF\<close> and writes the new one to
  \<^verbatim>\<open>state.status.ovF\<close>: from an override of 100, \<^verbatim>\<open>override:feed(10)\<close> sends
  \<^verbatim>\<open>M220S110\<close> and leaves \<^verbatim>\<open>state.ovF\<close> at 100, so a second
  \<^verbatim>\<open>override:feed(10)\<close> sends \<^verbatim>\<open>M220S110\<close> again, not \<^verbatim>\<open>M220S120\<close>; and a state
  without the top-level property gives \<^verbatim>\<open>M220SNaN\<close>.
\<close>

theorem override_feed_reads_stale_value:
  "ovF (controller_state open_controller) = Some (Num 100)
   \<and> written (run example_env [OverrideFeed 10] open_controller) = [''M220S110'' @ [LF]]
   \<and> ovF (controller_state (run example_env [OverrideFeed 10] open_controller)) = Some (Num 100)
   \<and> status_ovF (controller_state (run example_env [OverrideFeed 10] open_controller))
       = Some (Num 110)
   \<and> written (run example_env [OverrideFeed 10, Ok 5 ''ok'', OverrideFeed 10] open_controller)
       = [''M220S110'' @ [LF], ''M220S110'' @ [LF]]
   \<and> written (run example_env [OverrideFeed 10]
        (open_controller\<lparr>controller_state := init_snapshot\<lparr>ovF := None\<rparr>\<rparr>))
       = [''M220SNaN'' @ [LF]]"
  by code_simp

end
